theory Spec2Isabelle
  imports Main
begin

section \<open>Python values and exceptions\<close>

text \<open>
  Values that a parsed manifest can hold, and the exceptions that reach a caller of
  \<^verbatim>\<open>descriptor.py\<close>. A raise is the left injection of a sum.
\<close>

datatype py_value =
    PyNone
  | PyBool bool
  | PyInt int
  | PyStr string
  | PyList "py_value list"
  | PyDict "(string \<times> py_value) list"

datatype error =
    TankDescriptorError string
  | OtherException string

type_synonym py_dict = "string \<rightharpoonup> py_value"

text \<open>\<^verbatim>\<open>meta.get(key)\<close>: the value stored under the key, \<^verbatim>\<open>None\<close> when the key is missing.\<close>

definition dict_get :: "py_dict \<Rightarrow> string \<Rightarrow> py_value" where
  "dict_get meta key = (case meta key of None \<Rightarrow> PyNone | Some v \<Rightarrow> v)"

text \<open>\<^verbatim>\<open>"%s" % n\<close> for an integer: its decimal numeral.\<close>

fun str_nat :: "nat \<Rightarrow> string" where
  "str_nat n =
     (if n < 10 then [''0123456789'' ! n]
      else str_nat (n div 10) @ [''0123456789'' ! (n mod 10)])"

definition str_int :: "int \<Rightarrow> string" where
  "str_int i = (if i < 0 then CHR ''-'' # str_nat (nat (- i)) else str_nat (nat i))"

section \<open>The standard library's path functions (posixpath)\<close>

definition startswith :: "string \<Rightarrow> string \<Rightarrow> bool" where
  "startswith s p = (take (length p) s = p)"

definition endswith :: "string \<Rightarrow> string \<Rightarrow> bool" where
  "endswith s p = (drop (length s - length p) s = p \<and> length p \<le> length s)"

text \<open>One round of the loop of \<^verbatim>\<open>posixpath.join\<close>.\<close>

definition join_step :: "string \<Rightarrow> string \<Rightarrow> string" where
  "join_step path b =
     (if startswith b ''/'' then b
      else if path = [] \<or> endswith path ''/'' then path @ b
      else path @ ''/'' @ b)"

definition os_path_join :: "string \<Rightarrow> string list \<Rightarrow> string" where
  "os_path_join a p = foldl join_step a p"

definition os_path_isabs :: "string \<Rightarrow> bool" where
  "os_path_isabs s = startswith s ''/''"

text \<open>\<^verbatim>\<open>s.split(c)\<close>: never empty, \<^verbatim>\<open>"".split("/") == [""]\<close>.\<close>

fun split_sep :: "char \<Rightarrow> string \<Rightarrow> string list" where
  "split_sep c [] = [[]]"
| "split_sep c (x # xs) =
     (if x = c then [] # split_sep c xs
      else (case split_sep c xs of
              [] \<Rightarrow> [[x]]
            | w # ws \<Rightarrow> (x # w) # ws))"

text \<open>\<^verbatim>\<open>sep.join(comps)\<close>.\<close>

fun str_join :: "string \<Rightarrow> string list \<Rightarrow> string" where
  "str_join sep [] = []"
| "str_join sep [c] = c"
| "str_join sep (c # d # cs) = c @ sep @ str_join sep (d # cs)"

text \<open>
  The loop of \<^verbatim>\<open>posixpath.normpath\<close> over the components; \<open>new_comps\<close> is the
  list built so far.
\<close>

fun normpath_comps :: "nat \<Rightarrow> string list \<Rightarrow> string list \<Rightarrow> string list" where
  "normpath_comps initial_slashes new_comps [] = new_comps"
| "normpath_comps initial_slashes new_comps (component # comps) =
     (if component = [] \<or> component = ''.'' then normpath_comps initial_slashes new_comps comps
      else if component \<noteq> ''..'' \<or> (initial_slashes = 0 \<and> new_comps = [])
              \<or> (new_comps \<noteq> [] \<and> last new_comps = ''..'')
      then normpath_comps initial_slashes (new_comps @ [component]) comps
      else if new_comps \<noteq> [] then normpath_comps initial_slashes (butlast new_comps) comps
      else normpath_comps initial_slashes new_comps comps)"

definition os_path_normpath :: "string \<Rightarrow> string" where
  "os_path_normpath path =
     (if path = [] then ''.''
      else
        let initial_slashes =
              (if startswith path ''/''
               then (if startswith path ''//'' \<and> \<not> startswith path ''///'' then 2 else 1)
               else (0::nat));
            comps = normpath_comps initial_slashes [] (split_sep CHR ''/'' path);
            joined = str_join ''/'' comps;
            res = (if initial_slashes \<noteq> 0
                   then replicate initial_slashes CHR ''/'' @ joined else joined)
        in if res = [] then ''.'' else res)"

text \<open>\<^verbatim>\<open>posixpath.abspath\<close>, with the working directory as an argument.\<close>

definition os_path_abspath :: "string \<Rightarrow> string \<Rightarrow> string" where
  "os_path_abspath cwd path =
     os_path_normpath (if os_path_isabs path then path else os_path_join cwd [path])"

text \<open>\<^verbatim>\<open>s.rstrip("/")\<close>.\<close>

definition rstrip_sep :: "string \<Rightarrow> string" where
  "rstrip_sep s = rev (dropWhile (\<lambda>c. c = CHR ''/'') (rev s))"

definition os_path_dirname :: "string \<Rightarrow> string" where
  "os_path_dirname p =
     (let i = length p - length (takeWhile (\<lambda>c. c \<noteq> CHR ''/'') (rev p));
          head = take i p
      in if head \<noteq> [] \<and> head \<noteq> replicate (length head) CHR ''/''
         then rstrip_sep head else head)"

text \<open>
  What the operating system answers at the time of a call: the paths that exist, the
  working directory, and \<^verbatim>\<open>__file__\<close> of the module \<^verbatim>\<open>descriptor.py\<close>.
\<close>

type_synonym filesystem = "string set"

record os_env =
  os_files :: filesystem
  os_getcwd :: string
  module_file :: string

definition os_path_exists :: "os_env \<Rightarrow> string \<Rightarrow> bool" where
  "os_path_exists os p = (p \<in> os_files os)"

section \<open>The IO descriptor interface\<close>

text \<open>
  Modelled from the spec: the package \<^verbatim>\<open>io_descriptor\<close> is not part of the sources at
  hand. An IO descriptor object is a reference; each of its methods is a function of that
  reference. Following sections 4.3 and 7 of the specification, the lookups of path,
  name, version, changelog and deprecation status return a value, whereas
  \<^verbatim>\<open>get_manifest\<close> and \<^verbatim>\<open>get_latest_version\<close> may raise.
\<close>

type_synonym io_ref = nat

record backend =
  io_get_dict :: "io_ref \<Rightarrow> py_dict"
  io_get_uri :: "io_ref \<Rightarrow> string"
  io_get_path :: "io_ref \<Rightarrow> string"
  io_get_system_name :: "io_ref \<Rightarrow> string"
  io_get_version :: "io_ref \<Rightarrow> string"
  io_get_manifest :: "io_ref \<Rightarrow> error + py_dict"
  io_get_changelog :: "io_ref \<Rightarrow> string option \<times> string option"
  io_get_deprecation_status :: "io_ref \<Rightarrow> bool \<times> string option"
  io_is_dev :: "io_ref \<Rightarrow> bool"
  io_is_immutable :: "io_ref \<Rightarrow> bool"
  io_get_latest_version :: "io_ref \<Rightarrow> string option \<Rightarrow> error + io_ref"

section \<open>Descriptor objects\<close>

text \<open>
  Modelled from the spec: the modules declaring the five variants are not part of the
  sources at hand. The specification lists App, Engine, Framework, Config and Core as the
  kinds of \<^verbatim>\<open>Descriptor\<close>; each is a subclass of \<^verbatim>\<open>Descriptor\<close> and none is a
  subclass of another, and each constructor binds the IO descriptor as
  \<^verbatim>\<open>Descriptor.__init__\<close> does.
\<close>

datatype py_class =
    Descriptor
  | AppDescriptor
  | EngineDescriptor
  | FrameworkDescriptor
  | ConfigDescriptor
  | CoreDescriptor

fun issubclass :: "py_class \<Rightarrow> py_class \<Rightarrow> bool" where
  "issubclass c Descriptor = True"
| "issubclass c k = (c = k)"

text \<open>
  \<^verbatim>\<open>Descriptor.__init__\<close> sets the one attribute \<^verbatim>\<open>_io_descriptor\<close>; an object is its
  class and that attribute.
\<close>

record descriptor =
  cls :: py_class
  io_descriptor :: io_ref

text \<open>Any Python object that can be compared with a descriptor.\<close>

datatype py_object =
    DescriptorObject descriptor
  | OtherObject py_value

fun isinstance :: "py_object \<Rightarrow> py_class \<Rightarrow> bool" where
  "isinstance (DescriptorObject d) c = issubclass (cls d) c"
| "isinstance (OtherObject v) c = False"

text \<open>\<^verbatim>\<open>(APP, FRAMEWORK, ENGINE, CONFIG, CORE) = range(5)\<close>\<close>

definition APP :: int where "APP = 0"
definition FRAMEWORK :: int where "FRAMEWORK = 1"
definition ENGINE :: int where "ENGINE = 2"
definition CONFIG :: int where "CONFIG = 3"
definition CORE :: int where "CORE = 4"

subsection \<open>Accessors\<close>

definition get_path :: "backend \<Rightarrow> descriptor \<Rightarrow> string" where
  "get_path B self = io_get_path B (io_descriptor self)"

text \<open>
  The method \<^verbatim>\<open>__eq__\<close>. Under a true \<^verbatim>\<open>isinstance\<close> test \<open>other\<close> is a
  descriptor, whose \<^verbatim>\<open>get_path()\<close> is read; the case of another object there is never
  reached.
\<close>

definition descriptor_eq :: "backend \<Rightarrow> descriptor \<Rightarrow> py_object \<Rightarrow> bool" where
  "descriptor_eq B self other =
     (if isinstance other (cls self)
      then (case other of
              DescriptorObject d \<Rightarrow> get_path B self = get_path B d
            | OtherObject v \<Rightarrow> False)
      else False)"

text \<open>
  The operator \<^verbatim>\<open>self == other\<close>. Python asks the right operand first when its class
  is a proper subclass of the class of the left operand, and takes the answer of the
  first method that does not answer \<^verbatim>\<open>NotImplemented\<close>; \<^verbatim>\<open>Descriptor.__eq__\<close> always
  answers \<^verbatim>\<open>True\<close> or \<^verbatim>\<open>False\<close>, so the first method asked decides.
\<close>

definition py_eq :: "backend \<Rightarrow> descriptor \<Rightarrow> py_object \<Rightarrow> bool" where
  "py_eq B self other =
     (case other of
        DescriptorObject d \<Rightarrow>
          (if cls d \<noteq> cls self \<and> issubclass (cls d) (cls self)
           then descriptor_eq B d (DescriptorObject self)
           else descriptor_eq B self other)
      | OtherObject v \<Rightarrow> descriptor_eq B self other)"

text \<open>The method \<^verbatim>\<open>__ne__\<close>: \<^verbatim>\<open>not (self == other)\<close>, with the operator.\<close>

definition descriptor_ne :: "backend \<Rightarrow> descriptor \<Rightarrow> py_object \<Rightarrow> bool" where
  "descriptor_ne B self other = (\<not> py_eq B self other)"

text \<open>The operator \<^verbatim>\<open>self != other\<close>, dispatched like \<^verbatim>\<open>==\<close>.\<close>

definition py_ne :: "backend \<Rightarrow> descriptor \<Rightarrow> py_object \<Rightarrow> bool" where
  "py_ne B self other =
     (case other of
        DescriptorObject d \<Rightarrow>
          (if cls d \<noteq> cls self \<and> issubclass (cls d) (cls self)
           then descriptor_ne B d (DescriptorObject self)
           else descriptor_ne B self other)
      | OtherObject v \<Rightarrow> descriptor_ne B self other)"

definition get_dict :: "backend \<Rightarrow> descriptor \<Rightarrow> py_dict" where
  "get_dict B self = io_get_dict B (io_descriptor self)"

text \<open>\<^verbatim>\<open>get_location = get_dict\<close>: the class attribute is bound to the same function.\<close>

definition get_location :: "backend \<Rightarrow> descriptor \<Rightarrow> py_dict" where
  "get_location = get_dict"

definition get_uri :: "backend \<Rightarrow> descriptor \<Rightarrow> string" where
  "get_uri B self = io_get_uri B (io_descriptor self)"

definition system_name :: "backend \<Rightarrow> descriptor \<Rightarrow> string" where
  "system_name B self = io_get_system_name B (io_descriptor self)"

definition version :: "backend \<Rightarrow> descriptor \<Rightarrow> string" where
  "version B self = io_get_version B (io_descriptor self)"

definition display_name :: "backend \<Rightarrow> descriptor \<Rightarrow> error + py_value" where
  "display_name B self =
     (case io_get_manifest B (io_descriptor self) of
        Inl e \<Rightarrow> Inl e
      | Inr meta \<Rightarrow>
          (let display_name = dict_get meta ''display_name''
           in if display_name = PyNone then Inr (PyStr (system_name B self))
              else Inr display_name))"

definition is_dev :: "backend \<Rightarrow> descriptor \<Rightarrow> bool" where
  "is_dev B self = io_is_dev B (io_descriptor self)"

definition is_immutable :: "backend \<Rightarrow> descriptor \<Rightarrow> bool" where
  "is_immutable B self = io_is_immutable B (io_descriptor self)"

definition description :: "backend \<Rightarrow> descriptor \<Rightarrow> error + py_value" where
  "description B self =
     (case io_get_manifest B (io_descriptor self) of
        Inl e \<Rightarrow> Inl e
      | Inr meta \<Rightarrow>
          (let desc = dict_get meta ''description''
           in if desc = PyNone then Inr (PyStr ''No description available.'')
              else Inr desc))"

definition icon_256 :: "backend \<Rightarrow> os_env \<Rightarrow> descriptor \<Rightarrow> string" where
  "icon_256 B os self =
     (let app_icon = os_path_join (io_get_path B (io_descriptor self)) [''icon_256.png'']
      in if os_path_exists os app_icon then app_icon
         else os_path_abspath (os_getcwd os)
                (os_path_join (os_path_dirname (module_file os))
                   [''resources'', ''default_bundle_256px.png'']))"

definition support_url :: "backend \<Rightarrow> descriptor \<Rightarrow> error + py_value" where
  "support_url B self =
     (case io_get_manifest B (io_descriptor self) of
        Inl e \<Rightarrow> Inl e
      | Inr meta \<Rightarrow>
          (let support_url = dict_get meta ''support_url''
           in if support_url = PyNone then Inr (PyStr ''https://support.shotgunsoftware.com'')
              else Inr support_url))"

definition documentation_url :: "backend \<Rightarrow> descriptor \<Rightarrow> error + py_value" where
  "documentation_url B self =
     (case io_get_manifest B (io_descriptor self) of
        Inl e \<Rightarrow> Inl e
      | Inr meta \<Rightarrow> Inr (dict_get meta ''documentation_url''))"

definition deprecation_status :: "backend \<Rightarrow> descriptor \<Rightarrow> bool \<times> string option" where
  "deprecation_status B self = io_get_deprecation_status B (io_descriptor self)"

definition changelog :: "backend \<Rightarrow> descriptor \<Rightarrow> string option \<times> string option" where
  "changelog B self = io_get_changelog B (io_descriptor self)"

subsection \<open>Resolving the latest version\<close>

text \<open>
  Descriptor objects live in a store; an address is an index into it, and a new object
  takes the next free index. A Python reference always denotes a live object, so the
  properties below take \<open>self < length h\<close> as given. \<^verbatim>\<open>copy.copy\<close> allocates an
  object of the same class with the same attribute bindings.
\<close>

type_synonym addr = nat
type_synonym heap = "descriptor list"

definition copy_copy :: "heap \<Rightarrow> addr \<Rightarrow> addr \<times> heap" where
  "copy_copy h a = (length h, h @ [h ! a])"

definition find_latest_version ::
  "backend \<Rightarrow> heap \<Rightarrow> addr \<Rightarrow> string option \<Rightarrow> (error + addr) \<times> heap" where
  "find_latest_version B h self constraint_pattern =
     (case copy_copy h self of
        (latest, h1) \<Rightarrow>
          (case io_get_latest_version B (io_descriptor (h1 ! self)) constraint_pattern of
             Inl e \<Rightarrow> (Inl e, h1)
           | Inr io \<Rightarrow> (Inr latest, h1[latest := (h1 ! latest)\<lparr>io_descriptor := io\<rparr>])))"

section \<open>The factory\<close>

text \<open>
  The collaborators of \<^verbatim>\<open>create_descriptor\<close> that are declared elsewhere are parameters:
  the provider of the global cache root
  (\<^verbatim>\<open>LocalFileStorageManager.get_global_root(LocalFileStorageManager.CACHE)\<close>),
  \<^verbatim>\<open>filesystem.ensure_folder_exists\<close> and \<^verbatim>\<open>create_io_descriptor\<close>. Each may raise.
\<close>

datatype location = LocationDict py_value | LocationUri string

record 'sg externals =
  get_global_root :: "error + string"
  ensure_folder_exists :: "string \<Rightarrow> filesystem \<Rightarrow> error + filesystem"
  create_io_descriptor ::
    "'sg \<Rightarrow> int \<Rightarrow> location \<Rightarrow> string \<Rightarrow> string list \<Rightarrow> bool \<Rightarrow> string option
      \<Rightarrow> error + io_ref"

definition get_default_bundle_cache_root :: "'sg externals \<Rightarrow> error + string" where
  "get_default_bundle_cache_root X =
     (case get_global_root X of
        Inl e \<Rightarrow> Inl e
      | Inr global_root \<Rightarrow> Inr (os_path_join global_root [''bundle_cache'']))"

text \<open>Lines 58 to 61: the cache root handed on, and the file system after the step.\<close>

definition resolve_bundle_cache_root ::
  "'sg externals \<Rightarrow> filesystem \<Rightarrow> string option \<Rightarrow> (error + string) \<times> filesystem" where
  "resolve_bundle_cache_root X fs bundle_cache_root_override =
     (case bundle_cache_root_override of
        None \<Rightarrow>
          (case get_default_bundle_cache_root X of
             Inl e \<Rightarrow> (Inl e, fs)
           | Inr root \<Rightarrow>
               (case ensure_folder_exists X root fs of
                  Inl e \<Rightarrow> (Inl e, fs)
                | Inr fs' \<Rightarrow> (Inr root, fs')))
      | Some root \<Rightarrow> (Inr root, fs))"

text \<open>\<^verbatim>\<open>fallback_roots or []\<close>\<close>

definition or_empty :: "string list option \<Rightarrow> string list" where
  "or_empty fallback_roots = (case fallback_roots of None \<Rightarrow> [] | Some roots \<Rightarrow> roots)"

definition create_descriptor ::
  "'sg externals \<Rightarrow> filesystem \<Rightarrow> 'sg \<Rightarrow> int \<Rightarrow> location \<Rightarrow> string option
    \<Rightarrow> string list option \<Rightarrow> bool \<Rightarrow> string option \<Rightarrow> (error + descriptor) \<times> filesystem" where
  "create_descriptor X fs sg_connection descriptor_type dict_or_uri
       bundle_cache_root_override fallback_roots resolve_latest constraint_pattern =
     (case resolve_bundle_cache_root X fs bundle_cache_root_override of
        (Inl e, fs') \<Rightarrow> (Inl e, fs')
      | (Inr root, fs') \<Rightarrow>
          (case create_io_descriptor X sg_connection descriptor_type dict_or_uri root
                  (or_empty fallback_roots) resolve_latest constraint_pattern of
             Inl e \<Rightarrow> (Inl e, fs')
           | Inr io \<Rightarrow>
               (if descriptor_type = APP
                then Inr \<lparr>cls = AppDescriptor, io_descriptor = io\<rparr>
                else if descriptor_type = ENGINE
                then Inr \<lparr>cls = EngineDescriptor, io_descriptor = io\<rparr>
                else if descriptor_type = FRAMEWORK
                then Inr \<lparr>cls = FrameworkDescriptor, io_descriptor = io\<rparr>
                else if descriptor_type = CONFIG
                then Inr \<lparr>cls = ConfigDescriptor, io_descriptor = io\<rparr>
                else if descriptor_type = CORE
                then Inr \<lparr>cls = CoreDescriptor, io_descriptor = io\<rparr>
                else Inl (TankDescriptorError
                            (''Unsupported descriptor type '' @ str_int descriptor_type)),
                fs')))"

section \<open>A concrete backend and concrete collaborators\<close>

text \<open>
  An app-store bundle \<^verbatim>\<open>tk-app\<close>, used to run the definitions: IO descriptor 0 is
  version v1.0.0 in the default cache, 1 is version v1.2.0 (the latest), 2 is version
  v1.0.0 under the cache root \<^verbatim>\<open>/tmp/test_cache\<close>, and 3 is a second IO descriptor of
  version v1.0.0 that resolves to the same local path as 0.
\<close>

definition example_backend :: backend where
  "example_backend =
     \<lparr> io_get_dict = (\<lambda>r. [''type'' \<mapsto> PyStr ''app_store'', ''name'' \<mapsto> PyStr ''tk-app'',
                            ''version'' \<mapsto> PyStr (if r = 1 then ''v1.2.0'' else ''v1.0.0'')]),
       io_get_uri = (\<lambda>r. if r = 1 then ''sgtk:descriptor:app_store?name=tk-app&version=v1.2.0''
                          else ''sgtk:descriptor:app_store?name=tk-app&version=v1.0.0''),
       io_get_path = (\<lambda>r. if r = 1 then ''/home/u/.shotgun/bundle_cache/app_store/tk-app/v1.2.0''
                           else if r = 2 then ''/tmp/test_cache/app_store/tk-app/v1.0.0''
                           else ''/home/u/.shotgun/bundle_cache/app_store/tk-app/v1.0.0''),
       io_get_system_name = (\<lambda>r. ''tk-app''),
       io_get_version = (\<lambda>r. if r = 1 then ''v1.2.0'' else ''v1.0.0''),
       io_get_manifest =
         (\<lambda>r. if r = 0 then Inr Map.empty
              else if r = 1
              then Inr [''display_name'' \<mapsto> PyStr ''My App'', ''description'' \<mapsto> PyNone]
              else Inl (TankDescriptorError ''Cannot load metadata file'')),
       io_get_changelog = (\<lambda>r. (None, None)),
       io_get_deprecation_status = (\<lambda>r. (False, None)),
       io_is_dev = (\<lambda>r. False),
       io_is_immutable = (\<lambda>r. True),
       io_get_latest_version =
         (\<lambda>r p. if r \<le> 3 then Inr 1 else Inl (TankDescriptorError ''no matching version'')) \<rparr>"

definition example_externals :: "nat externals" where
  "example_externals =
     \<lparr> get_global_root = Inr ''/home/u/.shotgun'',
       ensure_folder_exists = (\<lambda>p fs. Inr (insert p fs)),
       create_io_descriptor =
         (\<lambda>sg k loc root fallbacks resolve_latest pattern.
            if loc = LocationUri ''sgtk:descriptor:app_store?name=tk-app&version=v1.0.0''
            then (if resolve_latest then Inr 1
                  else if root = ''/home/u/.shotgun/bundle_cache'' then Inr 0 else Inr 2)
            else Inl (TankDescriptorError ''Unknown descriptor type'')) \<rparr>"

section \<open>Properties\<close>

subsection \<open>Shared facts\<close>

lemma find_latest_version_old:
  "a < length h \<Longrightarrow> snd (find_latest_version B h self p) ! a = h ! a"
  by (simp add: find_latest_version_def copy_copy_def nth_append split: sum.splits)

lemma issubclass_refl: "issubclass c c"
  by (cases c) simp_all

lemma descriptor_eq_descriptor:
  "descriptor_eq B d1 (DescriptorObject d2)
     = (issubclass (cls d2) (cls d1) \<and> get_path B d1 = get_path B d2)"
  by (simp add: descriptor_eq_def)

lemma issubclass_antisym: "issubclass a b \<Longrightarrow> issubclass b a \<Longrightarrow> a = b"
  by (cases a; cases b) simp_all

lemma py_eq_descriptor:
  "py_eq B d1 (DescriptorObject d2) = (cls d1 = cls d2 \<and> get_path B d1 = get_path B d2)"
proof (cases "cls d2 \<noteq> cls d1 \<and> issubclass (cls d2) (cls d1)")
  case True
  then have "\<not> issubclass (cls d1) (cls d2)"
    using issubclass_antisym by blast
  with True show ?thesis
    by (auto simp: py_eq_def descriptor_eq_descriptor)
next
  case False
  then show ?thesis
    by (auto simp: py_eq_def descriptor_eq_descriptor issubclass_refl)
qed

lemma py_eq_not_instance: "\<not> isinstance other (cls d) \<Longrightarrow> \<not> py_eq B d other"
  by (cases other) (simp_all add: py_eq_def descriptor_eq_def)

lemma py_ne_not_instance: "\<not> isinstance other (cls d) \<Longrightarrow> py_ne B d other"
  by (cases other) (simp_all add: py_ne_def descriptor_ne_def py_eq_not_instance)

lemma join_step_nonempty: "b \<noteq> [] \<Longrightarrow> join_step path b \<noteq> []"
  by (simp add: join_step_def)

lemma os_path_join_single_nonempty: "b \<noteq> [] \<Longrightarrow> os_path_join a [b] \<noteq> []"
  by (simp add: os_path_join_def join_step_nonempty)

lemma os_path_normpath_nonempty: "os_path_normpath path \<noteq> []"
  by (simp add: os_path_normpath_def Let_def)

lemma os_path_abspath_nonempty: "os_path_abspath cwd path \<noteq> []"
  by (simp add: os_path_abspath_def os_path_normpath_nonempty)

lemma resolve_bundle_cache_root_override:
  "resolve_bundle_cache_root X fs (Some root) = (Inr root, fs)"
  by (simp add: resolve_bundle_cache_root_def)

subsection \<open>Resolving the latest version\<close>

text \<open>
  Claim C1. Calling \<^verbatim>\<open>d2 = d1.find_latest_version(p)\<close> leaves \<open>d1\<close> unchanged: the
  object at \<open>d1\<close>, its bound IO descriptor and hence its version are the same after the
  call as before, whatever the call returns or raises; the same holds for every object
  that existed before the call.
\<close>

theorem find_latest_version_leaves_self_unchanged:
  assumes "d1 < length h"
  shows "snd (find_latest_version B h d1 p) ! d1 = h ! d1
       \<and> io_descriptor (snd (find_latest_version B h d1 p) ! d1) = io_descriptor (h ! d1)
       \<and> version B (snd (find_latest_version B h d1 p) ! d1) = version B (h ! d1)
       \<and> (\<forall>a < length h. snd (find_latest_version B h d1 p) ! a = h ! a)"
  using assms by (simp add: find_latest_version_old)

text \<open>An app at v1.0.0 whose latest version is v1.2.0: the copy differs, the original stays.\<close>

theorem find_latest_version_leaves_self_unchanged_witness:
  "(0::nat) < length [\<lparr>cls = AppDescriptor, io_descriptor = 0\<rparr>]
   \<and> snd (find_latest_version example_backend [\<lparr>cls = AppDescriptor, io_descriptor = 0\<rparr>] 0 None) ! 0
       = \<lparr>cls = AppDescriptor, io_descriptor = 0\<rparr>
   \<and> version example_backend
        (snd (find_latest_version example_backend
                [\<lparr>cls = AppDescriptor, io_descriptor = 0\<rparr>] 0 None) ! 0) = ''v1.0.0''
   \<and> version example_backend
        (snd (find_latest_version example_backend
                [\<lparr>cls = AppDescriptor, io_descriptor = 0\<rparr>] 0 None) ! 1) = ''v1.2.0''"
proof -
  have pre: "(0::nat) < length [\<lparr>cls = AppDescriptor, io_descriptor = 0\<rparr>]" by simp
  have new: "snd (find_latest_version example_backend
                    [\<lparr>cls = AppDescriptor, io_descriptor = 0\<rparr>] 0 None) ! 1
               = \<lparr>cls = AppDescriptor, io_descriptor = 1\<rparr>"
    by (simp add: find_latest_version_def copy_copy_def example_backend_def)
  show ?thesis
    using find_latest_version_leaves_self_unchanged [OF pre, of example_backend None] new
    by (simp add: version_def example_backend_def)
qed

text \<open>
  Claim C2. For a descriptor \<open>d\<close> of class \<open>K\<close> whose IO descriptor's
  \<^verbatim>\<open>get_latest_version(p)\<close> returns \<open>io\<close>, \<^verbatim>\<open>d.find_latest_version(p)\<close> returns a
  newly allocated object, distinct from \<open>d\<close> and from every object that existed before,
  of the same class \<open>K\<close>, bound to exactly \<open>io\<close>.
\<close>

theorem find_latest_version_returns_new_descriptor:
  assumes "d < length h"
    and "cls (h ! d) = K"
    and "io_get_latest_version B (io_descriptor (h ! d)) p = Inr io"
  shows "fst (find_latest_version B h d p) = Inr (length h)
       \<and> length h \<noteq> d
       \<and> length (snd (find_latest_version B h d p)) = Suc (length h)
       \<and> cls (snd (find_latest_version B h d p) ! length h) = K
       \<and> io_descriptor (snd (find_latest_version B h d p) ! length h) = io"
  using assms by (simp add: find_latest_version_def copy_copy_def nth_append)

theorem find_latest_version_returns_new_descriptor_witness:
  "fst (find_latest_version example_backend
          [\<lparr>cls = EngineDescriptor, io_descriptor = 0\<rparr>] 0 (Some ''v1.x.x'')) = Inr 1
   \<and> snd (find_latest_version example_backend
            [\<lparr>cls = EngineDescriptor, io_descriptor = 0\<rparr>] 0 (Some ''v1.x.x'')) ! 1
       = \<lparr>cls = EngineDescriptor, io_descriptor = 1\<rparr>"
proof -
  have pre: "(0::nat) < length [\<lparr>cls = EngineDescriptor, io_descriptor = 0\<rparr>]" by simp
  have k: "cls ([\<lparr>cls = EngineDescriptor, io_descriptor = 0\<rparr>] ! 0) = EngineDescriptor" by simp
  have glv: "io_get_latest_version example_backend
               (io_descriptor ([\<lparr>cls = EngineDescriptor, io_descriptor = 0\<rparr>] ! 0))
               (Some ''v1.x.x'') = Inr 1"
    by (simp add: example_backend_def)
  show ?thesis
    using find_latest_version_returns_new_descriptor [OF pre k glv]
    by simp
qed

subsection \<open>Legacy accessor\<close>

text \<open>
  Claim C9. \<^verbatim>\<open>get_location\<close> is the same operation as \<^verbatim>\<open>get_dict\<close>: for every
  descriptor both return the dictionary form held by the bound IO descriptor.
\<close>

theorem get_location_is_get_dict:
  "get_location B d = get_dict B d \<and> get_dict B d = io_get_dict B (io_descriptor d)"
  by (simp add: get_location_def get_dict_def)

subsection \<open>Equality\<close>

text \<open>
  Claim C3, as stated, fails: an \<^verbatim>\<open>AppDescriptor\<close> and an \<^verbatim>\<open>EngineDescriptor\<close> bound
  to the same IO descriptor have equal paths and are not equal.
\<close>

theorem eq_iff_same_path_counterexample:
  "\<not> (py_eq example_backend \<lparr>cls = AppDescriptor, io_descriptor = 0\<rparr>
          (DescriptorObject \<lparr>cls = EngineDescriptor, io_descriptor = 0\<rparr>)
        = (get_path example_backend \<lparr>cls = AppDescriptor, io_descriptor = 0\<rparr>
           = get_path example_backend \<lparr>cls = EngineDescriptor, io_descriptor = 0\<rparr>))"
  by (simp add: py_eq_def descriptor_eq_def get_path_def)

text \<open>
  Claim C3, amended. For two descriptors, \<^verbatim>\<open>d1 == d2\<close> holds exactly when \<open>d1\<close> and
  \<open>d2\<close> are of the same class and their resolved local paths are equal; in particular
  two descriptors of the same class built from different location references are equal
  whenever their resolved local paths match.
\<close>

theorem eq_iff_same_class_and_same_path:
  "py_eq B d1 (DescriptorObject d2) = (cls d1 = cls d2 \<and> get_path B d1 = get_path B d2)
   \<and> (cls d1 = cls d2 \<and> get_path B d1 = get_path B d2
        \<longrightarrow> py_eq B d1 (DescriptorObject d2))"
  by (simp add: py_eq_descriptor)

text \<open>
  Two app descriptors over different IO descriptors that resolve to one path are equal; a
  plain \<^verbatim>\<open>Descriptor\<close> and an app descriptor over the same IO descriptor are not.
\<close>

theorem eq_iff_same_class_and_same_path_witness:
  "cls \<lparr>cls = AppDescriptor, io_descriptor = 0\<rparr> = cls \<lparr>cls = AppDescriptor, io_descriptor = 3\<rparr>
   \<and> get_path example_backend \<lparr>cls = AppDescriptor, io_descriptor = 0\<rparr>
       = get_path example_backend \<lparr>cls = AppDescriptor, io_descriptor = 3\<rparr>
   \<and> py_eq example_backend \<lparr>cls = AppDescriptor, io_descriptor = 0\<rparr>
        (DescriptorObject \<lparr>cls = AppDescriptor, io_descriptor = 3\<rparr>)
   \<and> \<not> py_eq example_backend \<lparr>cls = Descriptor, io_descriptor = 0\<rparr>
        (DescriptorObject \<lparr>cls = AppDescriptor, io_descriptor = 0\<rparr>)"
proof -
  have c: "cls \<lparr>cls = AppDescriptor, io_descriptor = 0\<rparr>
             = cls \<lparr>cls = AppDescriptor, io_descriptor = 3\<rparr>"
    by simp
  have p: "get_path example_backend \<lparr>cls = AppDescriptor, io_descriptor = 0\<rparr>
             = get_path example_backend \<lparr>cls = AppDescriptor, io_descriptor = 3\<rparr>"
    by (simp add: get_path_def example_backend_def)
  have n: "cls \<lparr>cls = Descriptor, io_descriptor = 0\<rparr>
             \<noteq> cls \<lparr>cls = AppDescriptor, io_descriptor = 0\<rparr>"
    by simp
  from eq_iff_same_class_and_same_path
         [of example_backend "\<lparr>cls = AppDescriptor, io_descriptor = 0\<rparr>"
             "\<lparr>cls = AppDescriptor, io_descriptor = 3\<rparr>"] c p
  have same: "py_eq example_backend \<lparr>cls = AppDescriptor, io_descriptor = 0\<rparr>
                (DescriptorObject \<lparr>cls = AppDescriptor, io_descriptor = 3\<rparr>)"
    by blast
  from eq_iff_same_class_and_same_path
         [of example_backend "\<lparr>cls = Descriptor, io_descriptor = 0\<rparr>"
             "\<lparr>cls = AppDescriptor, io_descriptor = 0\<rparr>"] n
  have "\<not> py_eq example_backend \<lparr>cls = Descriptor, io_descriptor = 0\<rparr>
            (DescriptorObject \<lparr>cls = AppDescriptor, io_descriptor = 0\<rparr>)"
    by blast
  with c p same show ?thesis by blast
qed

text \<open>
  Claim C10. Equality is gated on the class: when \<open>other\<close> is not an instance of the
  class of \<open>d\<close>, \<^verbatim>\<open>d == other\<close> is false and \<^verbatim>\<open>d != other\<close> is true, whatever the
  paths are; so are the answers of the methods \<^verbatim>\<open>__eq__\<close> and \<^verbatim>\<open>__ne__\<close> of \<open>d\<close>.
\<close>

theorem eq_gated_on_class:
  assumes "\<not> isinstance other (cls d)"
  shows "descriptor_eq B d other = False \<and> descriptor_ne B d other = True
       \<and> py_eq B d other = False \<and> py_ne B d other = True"
  using assms
  by (simp add: descriptor_eq_def descriptor_ne_def py_eq_not_instance py_ne_not_instance)

text \<open>An app and an engine descriptor over the same cached path.\<close>

theorem eq_gated_on_class_witness:
  "\<not> isinstance (DescriptorObject \<lparr>cls = EngineDescriptor, io_descriptor = 0\<rparr>)
        (cls \<lparr>cls = AppDescriptor, io_descriptor = 0\<rparr>)
   \<and> get_path example_backend \<lparr>cls = AppDescriptor, io_descriptor = 0\<rparr>
       = get_path example_backend \<lparr>cls = EngineDescriptor, io_descriptor = 0\<rparr>
   \<and> descriptor_eq example_backend \<lparr>cls = AppDescriptor, io_descriptor = 0\<rparr>
        (DescriptorObject \<lparr>cls = EngineDescriptor, io_descriptor = 0\<rparr>) = False
   \<and> descriptor_ne example_backend \<lparr>cls = AppDescriptor, io_descriptor = 0\<rparr>
        (DescriptorObject \<lparr>cls = EngineDescriptor, io_descriptor = 0\<rparr>) = True
   \<and> py_eq example_backend \<lparr>cls = AppDescriptor, io_descriptor = 0\<rparr>
        (DescriptorObject \<lparr>cls = EngineDescriptor, io_descriptor = 0\<rparr>) = False
   \<and> py_ne example_backend \<lparr>cls = AppDescriptor, io_descriptor = 0\<rparr>
        (DescriptorObject \<lparr>cls = EngineDescriptor, io_descriptor = 0\<rparr>) = True"
proof -
  have pre: "\<not> isinstance (DescriptorObject \<lparr>cls = EngineDescriptor, io_descriptor = 0\<rparr>)
                  (cls \<lparr>cls = AppDescriptor, io_descriptor = 0\<rparr>)"
    by simp
  have p: "get_path example_backend \<lparr>cls = AppDescriptor, io_descriptor = 0\<rparr>
             = get_path example_backend \<lparr>cls = EngineDescriptor, io_descriptor = 0\<rparr>"
    by (simp add: get_path_def)
  from eq_gated_on_class [OF pre, of example_backend] pre p
  show ?thesis by blast
qed

subsection \<open>The factory\<close>

text \<open>
  Claim C4, as stated, fails: with the recognised kind \<^verbatim>\<open>APP\<close> and a location that
  \<^verbatim>\<open>create_io_descriptor\<close> rejects, \<^verbatim>\<open>create_descriptor\<close> raises.
\<close>

theorem create_descriptor_raises_iff_kind_counterexample:
  "\<not> (isl (fst (create_descriptor example_externals {} (0::nat) APP
                   (LocationUri ''sgtk:descriptor:bogus?name=tk-app'')
                   (Some ''/tmp/test_cache'') None False None))
        \<longleftrightarrow> APP \<notin> {APP, ENGINE, FRAMEWORK, CONFIG, CORE})"
  by (simp add: create_descriptor_def resolve_bundle_cache_root_def example_externals_def)

text \<open>
  Claim C4, amended. \<^verbatim>\<open>create_descriptor\<close> raises whenever the kind is not one of the
  five recognised kinds. An error raised while the cache root is determined or by
  \<^verbatim>\<open>create_io_descriptor\<close> is propagated, whatever the kind. When both steps succeed,
  \<^verbatim>\<open>create_descriptor\<close> raises if and only if the kind is not one of the five, the error
  then being \<^verbatim>\<open>TankDescriptorError("Unsupported descriptor type <kind>")\<close>, and for each
  recognised kind it returns a descriptor of the matching variant bound to the
  constructed IO descriptor.
\<close>

theorem create_descriptor_kind_dispatch:
  "(k \<notin> {APP, ENGINE, FRAMEWORK, CONFIG, CORE}
      \<longrightarrow> isl (fst (create_descriptor X fs sg k loc override fb rl cp)))
   \<and> (\<forall>e fs'. resolve_bundle_cache_root X fs override = (Inl e, fs')
        \<longrightarrow> fst (create_descriptor X fs sg k loc override fb rl cp) = Inl e)
   \<and> (\<forall>root fs'. resolve_bundle_cache_root X fs override = (Inr root, fs') \<longrightarrow>
        (\<forall>e. create_io_descriptor X sg k loc root (or_empty fb) rl cp = Inl e
           \<longrightarrow> fst (create_descriptor X fs sg k loc override fb rl cp) = Inl e)
      \<and> (\<forall>io. create_io_descriptor X sg k loc root (or_empty fb) rl cp = Inr io \<longrightarrow>
           (isl (fst (create_descriptor X fs sg k loc override fb rl cp))
              \<longleftrightarrow> k \<notin> {APP, ENGINE, FRAMEWORK, CONFIG, CORE})
         \<and> (k \<notin> {APP, ENGINE, FRAMEWORK, CONFIG, CORE}
              \<longrightarrow> fst (create_descriptor X fs sg k loc override fb rl cp)
                    = Inl (TankDescriptorError (''Unsupported descriptor type '' @ str_int k)))
         \<and> (k = APP \<longrightarrow> fst (create_descriptor X fs sg k loc override fb rl cp)
                          = Inr \<lparr>cls = AppDescriptor, io_descriptor = io\<rparr>)
         \<and> (k = ENGINE \<longrightarrow> fst (create_descriptor X fs sg k loc override fb rl cp)
                          = Inr \<lparr>cls = EngineDescriptor, io_descriptor = io\<rparr>)
         \<and> (k = FRAMEWORK \<longrightarrow> fst (create_descriptor X fs sg k loc override fb rl cp)
                          = Inr \<lparr>cls = FrameworkDescriptor, io_descriptor = io\<rparr>)
         \<and> (k = CONFIG \<longrightarrow> fst (create_descriptor X fs sg k loc override fb rl cp)
                          = Inr \<lparr>cls = ConfigDescriptor, io_descriptor = io\<rparr>)
         \<and> (k = CORE \<longrightarrow> fst (create_descriptor X fs sg k loc override fb rl cp)
                          = Inr \<lparr>cls = CoreDescriptor, io_descriptor = io\<rparr>)))"
proof -
  let ?R = "fst (create_descriptor X fs sg k loc override fb rl cp)"
  have unknown: "k \<notin> {APP, ENGINE, FRAMEWORK, CONFIG, CORE} \<Longrightarrow> isl ?R"
    by (simp add: create_descriptor_def split: prod.splits sum.splits)
  have root_error: "?R = Inl e"
    if "resolve_bundle_cache_root X fs override = (Inl e, fs')" for e fs'
    using that by (simp add: create_descriptor_def)
  have io_error: "?R = Inl e"
    if "resolve_bundle_cache_root X fs override = (Inr root, fs')"
      and "create_io_descriptor X sg k loc root (or_empty fb) rl cp = Inl e" for root fs' e
    using that by (simp add: create_descriptor_def)
  have dispatch:
    "?R = (if k = APP then Inr \<lparr>cls = AppDescriptor, io_descriptor = io\<rparr>
           else if k = ENGINE then Inr \<lparr>cls = EngineDescriptor, io_descriptor = io\<rparr>
           else if k = FRAMEWORK then Inr \<lparr>cls = FrameworkDescriptor, io_descriptor = io\<rparr>
           else if k = CONFIG then Inr \<lparr>cls = ConfigDescriptor, io_descriptor = io\<rparr>
           else if k = CORE then Inr \<lparr>cls = CoreDescriptor, io_descriptor = io\<rparr>
           else Inl (TankDescriptorError (''Unsupported descriptor type '' @ str_int k)))"
    if "resolve_bundle_cache_root X fs override = (Inr root, fs')"
      and "create_io_descriptor X sg k loc root (or_empty fb) rl cp = Inr io" for root fs' io
    using that by (simp add: create_descriptor_def)
  have recognised:
    "(isl ?R \<longleftrightarrow> k \<notin> {APP, ENGINE, FRAMEWORK, CONFIG, CORE})
     \<and> (k \<notin> {APP, ENGINE, FRAMEWORK, CONFIG, CORE}
          \<longrightarrow> ?R = Inl (TankDescriptorError (''Unsupported descriptor type '' @ str_int k)))
     \<and> (k = APP \<longrightarrow> ?R = Inr \<lparr>cls = AppDescriptor, io_descriptor = io\<rparr>)
     \<and> (k = ENGINE \<longrightarrow> ?R = Inr \<lparr>cls = EngineDescriptor, io_descriptor = io\<rparr>)
     \<and> (k = FRAMEWORK \<longrightarrow> ?R = Inr \<lparr>cls = FrameworkDescriptor, io_descriptor = io\<rparr>)
     \<and> (k = CONFIG \<longrightarrow> ?R = Inr \<lparr>cls = ConfigDescriptor, io_descriptor = io\<rparr>)
     \<and> (k = CORE \<longrightarrow> ?R = Inr \<lparr>cls = CoreDescriptor, io_descriptor = io\<rparr>)"
    if "resolve_bundle_cache_root X fs override = (Inr root, fs')"
      and "create_io_descriptor X sg k loc root (or_empty fb) rl cp = Inr io" for root fs' io
    unfolding dispatch [OF that]
    by (simp add: APP_def ENGINE_def FRAMEWORK_def CONFIG_def CORE_def)
  show ?thesis
    using unknown root_error io_error recognised by blast
qed

text \<open>
  An engine over the test cache root is built; kind 7 is refused after the IO descriptor
  was constructed.
\<close>

theorem create_descriptor_kind_dispatch_witness:
  "fst (create_descriptor example_externals {} (0::nat) ENGINE
          (LocationUri ''sgtk:descriptor:app_store?name=tk-app&version=v1.0.0'')
          (Some ''/tmp/test_cache'') None False None)
     = Inr \<lparr>cls = EngineDescriptor, io_descriptor = 2\<rparr>
   \<and> fst (create_descriptor example_externals {} (0::nat) 7
          (LocationUri ''sgtk:descriptor:app_store?name=tk-app&version=v1.0.0'')
          (Some ''/tmp/test_cache'') None False None)
     = Inl (TankDescriptorError ''Unsupported descriptor type 7'')"
proof -
  have root: "resolve_bundle_cache_root example_externals {} (Some ''/tmp/test_cache'')
                = (Inr ''/tmp/test_cache'', {})"
    by (simp add: resolve_bundle_cache_root_def)
  have io: "create_io_descriptor example_externals (0::nat) k
              (LocationUri ''sgtk:descriptor:app_store?name=tk-app&version=v1.0.0'')
              ''/tmp/test_cache'' (or_empty None) False None = Inr 2" for k
    by (simp add: example_externals_def)
  have seven: "(7::int) \<notin> {APP, ENGINE, FRAMEWORK, CONFIG, CORE}"
    by (simp add: APP_def ENGINE_def FRAMEWORK_def CONFIG_def CORE_def)
  have msg: "str_int 7 = ''7''"
    by (simp add: str_int_def)
  from create_descriptor_kind_dispatch
         [of ENGINE example_externals "{}" 0
             "LocationUri ''sgtk:descriptor:app_store?name=tk-app&version=v1.0.0''"
             "Some ''/tmp/test_cache''" None False None] root io
  have engine: "fst (create_descriptor example_externals {} (0::nat) ENGINE
          (LocationUri ''sgtk:descriptor:app_store?name=tk-app&version=v1.0.0'')
          (Some ''/tmp/test_cache'') None False None)
     = Inr \<lparr>cls = EngineDescriptor, io_descriptor = 2\<rparr>"
    by blast
  from create_descriptor_kind_dispatch
         [of 7 example_externals "{}" 0
             "LocationUri ''sgtk:descriptor:app_store?name=tk-app&version=v1.0.0''"
             "Some ''/tmp/test_cache''" None False None] root io seven
  have "fst (create_descriptor example_externals {} (0::nat) 7
          (LocationUri ''sgtk:descriptor:app_store?name=tk-app&version=v1.0.0'')
          (Some ''/tmp/test_cache'') None False None)
     = Inl (TankDescriptorError (''Unsupported descriptor type '' @ str_int 7))"
    by blast
  with engine msg show ?thesis by simp
qed

text \<open>
  Claim C5. With an override, neither the provider of the default root nor
  \<^verbatim>\<open>ensure_folder_exists\<close> is consulted, the file system is left as it was, and the
  supplied root is the one handed to \<^verbatim>\<open>create_io_descriptor\<close>. Without an override, the
  factory takes the default bundle cache root from the provider, has the folder created,
  and then behaves as if that root had been supplied.
\<close>

theorem create_descriptor_cache_root:
  "(\<forall>g f. create_descriptor (X\<lparr>get_global_root := g, ensure_folder_exists := f\<rparr>)
             fs sg k loc (Some root) fb rl cp
           = create_descriptor X fs sg k loc (Some root) fb rl cp)
   \<and> resolve_bundle_cache_root X fs (Some root) = (Inr root, fs)
   \<and> snd (create_descriptor X fs sg k loc (Some root) fb rl cp) = fs
   \<and> (\<forall>e. create_io_descriptor X sg k loc root (or_empty fb) rl cp = Inl e
         \<longrightarrow> fst (create_descriptor X fs sg k loc (Some root) fb rl cp) = Inl e)
   \<and> (\<forall>io d. create_io_descriptor X sg k loc root (or_empty fb) rl cp = Inr io
         \<and> fst (create_descriptor X fs sg k loc (Some root) fb rl cp) = Inr d
         \<longrightarrow> io_descriptor d = io)
   \<and> (\<forall>global_root fs'.
         get_global_root X = Inr global_root
         \<and> ensure_folder_exists X (os_path_join global_root [''bundle_cache'']) fs = Inr fs'
         \<longrightarrow> get_default_bundle_cache_root X
               = Inr (os_path_join global_root [''bundle_cache''])
           \<and> resolve_bundle_cache_root X fs None
               = (Inr (os_path_join global_root [''bundle_cache'']), fs')
           \<and> create_descriptor X fs sg k loc None fb rl cp
               = create_descriptor X fs' sg k loc
                   (Some (os_path_join global_root [''bundle_cache''])) fb rl cp)"
proof -
  have not_consulted:
    "create_descriptor (X\<lparr>get_global_root := g, ensure_folder_exists := f\<rparr>)
       fs sg k loc (Some root) fb rl cp
     = create_descriptor X fs sg k loc (Some root) fb rl cp" for g f
    by (simp add: create_descriptor_def resolve_bundle_cache_root_override)
  have same_fs: "snd (create_descriptor X fs sg k loc (Some root) fb rl cp) = fs"
    by (simp add: create_descriptor_def resolve_bundle_cache_root_override split: sum.splits)
  have io_error: "fst (create_descriptor X fs sg k loc (Some root) fb rl cp) = Inl e"
    if "create_io_descriptor X sg k loc root (or_empty fb) rl cp = Inl e" for e
    using that by (simp add: create_descriptor_def resolve_bundle_cache_root_override)
  have bound: "io_descriptor d = io"
    if "create_io_descriptor X sg k loc root (or_empty fb) rl cp = Inr io"
      and "fst (create_descriptor X fs sg k loc (Some root) fb rl cp) = Inr d" for io d
    using that
    by (auto simp: create_descriptor_def resolve_bundle_cache_root_override
             split: if_splits)
  have default:
    "get_default_bundle_cache_root X = Inr (os_path_join global_root [''bundle_cache''])
     \<and> resolve_bundle_cache_root X fs None
         = (Inr (os_path_join global_root [''bundle_cache'']), fs')
     \<and> create_descriptor X fs sg k loc None fb rl cp
         = create_descriptor X fs' sg k loc
             (Some (os_path_join global_root [''bundle_cache''])) fb rl cp"
    if "get_global_root X = Inr global_root"
      and "ensure_folder_exists X (os_path_join global_root [''bundle_cache'']) fs = Inr fs'"
    for global_root fs'
    using that
    by (simp add: create_descriptor_def resolve_bundle_cache_root_def
                  get_default_bundle_cache_root_def)
  show ?thesis
    using not_consulted same_fs io_error bound default
          resolve_bundle_cache_root_override [of X fs root]
    by blast
qed

text \<open>
  Without an override the app is built over \<^verbatim>\<open>/home/u/.shotgun/bundle_cache\<close>, which
  exists afterwards; with an override and a provider that raises, the supplied root is
  used and nothing is created.
\<close>

theorem create_descriptor_cache_root_witness:
  "create_descriptor example_externals {} (0::nat) APP
      (LocationUri ''sgtk:descriptor:app_store?name=tk-app&version=v1.0.0'')
      None None False None
     = (Inr \<lparr>cls = AppDescriptor, io_descriptor = 0\<rparr>, {''/home/u/.shotgun/bundle_cache''})
   \<and> create_descriptor
        (example_externals\<lparr>get_global_root := Inl (OtherException ''no home directory''),
                           ensure_folder_exists := (\<lambda>p fs. Inl (OtherException ''read-only''))\<rparr>)
        {} (0::nat) APP
        (LocationUri ''sgtk:descriptor:app_store?name=tk-app&version=v1.0.0'')
        (Some ''/tmp/test_cache'') None False None
     = (Inr \<lparr>cls = AppDescriptor, io_descriptor = 2\<rparr>, {})"
proof -
  let ?loc = "LocationUri ''sgtk:descriptor:app_store?name=tk-app&version=v1.0.0''"
  have g: "get_global_root example_externals = Inr ''/home/u/.shotgun''"
    by (simp add: example_externals_def)
  have j: "os_path_join ''/home/u/.shotgun'' [''bundle_cache''] = ''/home/u/.shotgun/bundle_cache''"
    by (simp add: os_path_join_def join_step_def startswith_def endswith_def)
  have f: "ensure_folder_exists example_externals
             (os_path_join ''/home/u/.shotgun'' [''bundle_cache'']) {}
           = Inr {''/home/u/.shotgun/bundle_cache''}"
    by (simp add: example_externals_def j)
  have with_default:
    "create_descriptor example_externals {''/home/u/.shotgun/bundle_cache''} (0::nat) APP ?loc
       (Some ''/home/u/.shotgun/bundle_cache'') None False None
     = (Inr \<lparr>cls = AppDescriptor, io_descriptor = 0\<rparr>, {''/home/u/.shotgun/bundle_cache''})"
    by (simp add: create_descriptor_def resolve_bundle_cache_root_def example_externals_def
                  or_empty_def)
  have with_override:
    "create_descriptor example_externals {} (0::nat) APP ?loc
       (Some ''/tmp/test_cache'') None False None
     = (Inr \<lparr>cls = AppDescriptor, io_descriptor = 2\<rparr>, {})"
    by (simp add: create_descriptor_def resolve_bundle_cache_root_def example_externals_def
                  or_empty_def)
  from create_descriptor_cache_root
         [of example_externals "{}" 0 APP ?loc "''/tmp/test_cache''" None False None] g f
  have "create_descriptor example_externals {} (0::nat) APP ?loc None None False None
          = create_descriptor example_externals {''/home/u/.shotgun/bundle_cache''} (0::nat) APP
              ?loc (Some (os_path_join ''/home/u/.shotgun'' [''bundle_cache''])) None False None"
    by blast
  moreover
  from create_descriptor_cache_root
         [of example_externals "{}" 0 APP ?loc "''/tmp/test_cache''" None False None]
  have "create_descriptor
          (example_externals\<lparr>get_global_root := Inl (OtherException ''no home directory''),
                             ensure_folder_exists := (\<lambda>p fs. Inl (OtherException ''read-only''))\<rparr>)
          {} (0::nat) APP ?loc (Some ''/tmp/test_cache'') None False None
        = create_descriptor example_externals {} (0::nat) APP ?loc
            (Some ''/tmp/test_cache'') None False None"
    by blast
  ultimately show ?thesis
    using with_default with_override j by simp
qed

subsection \<open>Metadata accessors\<close>

text \<open>
  Claim C6. For a descriptor whose manifest lookup yields the empty mapping, the
  description is exactly \<^verbatim>\<open>"No description available."\<close> and \<^verbatim>\<open>icon_256\<close> is a non-empty
  path: \<^verbatim>\<open>icon_256.png\<close> under \<^verbatim>\<open>get_path()\<close> when that file exists, otherwise the
  default icon beside the module.
\<close>

theorem no_manifest_defaults:
  assumes "io_get_manifest B (io_descriptor d) = Inr Map.empty"
  shows "description B d = Inr (PyStr ''No description available.'')
       \<and> icon_256 B os d \<noteq> []
       \<and> (os_path_exists os (os_path_join (get_path B d) [''icon_256.png''])
            \<longrightarrow> icon_256 B os d = os_path_join (get_path B d) [''icon_256.png''])
       \<and> (\<not> os_path_exists os (os_path_join (get_path B d) [''icon_256.png''])
            \<longrightarrow> icon_256 B os d
                 = os_path_abspath (os_getcwd os)
                     (os_path_join (os_path_dirname (module_file os))
                        [''resources'', ''default_bundle_256px.png'']))"
proof -
  have desc: "description B d = Inr (PyStr ''No description available.'')"
    using assms by (simp add: description_def dict_get_def)
  have bundle_icon: "os_path_join (get_path B d) [''icon_256.png''] \<noteq> []"
    by (rule os_path_join_single_nonempty) simp
  have nonempty: "icon_256 B os d \<noteq> []"
    using bundle_icon
    by (simp add: icon_256_def Let_def get_path_def os_path_abspath_nonempty)
  show ?thesis
    using desc nonempty by (simp add: icon_256_def Let_def get_path_def)
qed

text \<open>
  IO descriptor 0 has an empty manifest; its bundle folder holds no icon, and the module
  lies in \<^verbatim>\<open>/opt/tk/python/tank/descriptor\<close>.
\<close>

theorem no_manifest_defaults_witness:
  "io_get_manifest example_backend (io_descriptor \<lparr>cls = AppDescriptor, io_descriptor = 0\<rparr>)
     = Inr Map.empty
   \<and> description example_backend \<lparr>cls = AppDescriptor, io_descriptor = 0\<rparr>
       = Inr (PyStr ''No description available.'')
   \<and> icon_256 example_backend
       \<lparr>os_files = {}, os_getcwd = ''/home/u'',
        module_file = ''/opt/tk/python/tank/descriptor/descriptor.py''\<rparr>
       \<lparr>cls = AppDescriptor, io_descriptor = 0\<rparr>
       = ''/opt/tk/python/tank/descriptor/resources/default_bundle_256px.png''
   \<and> icon_256 example_backend
       \<lparr>os_files = {''/home/u/.shotgun/bundle_cache/app_store/tk-app/v1.0.0/icon_256.png''},
        os_getcwd = ''/home/u'',
        module_file = ''/opt/tk/python/tank/descriptor/descriptor.py''\<rparr>
       \<lparr>cls = AppDescriptor, io_descriptor = 0\<rparr>
       = ''/home/u/.shotgun/bundle_cache/app_store/tk-app/v1.0.0/icon_256.png''"
proof -
  let ?d = "\<lparr>cls = AppDescriptor, io_descriptor = 0\<rparr>"
  let ?os = "\<lparr>os_files = {}, os_getcwd = ''/home/u'',
              module_file = ''/opt/tk/python/tank/descriptor/descriptor.py''\<rparr>"
  let ?os' = "\<lparr>os_files = {''/home/u/.shotgun/bundle_cache/app_store/tk-app/v1.0.0/icon_256.png''},
              os_getcwd = ''/home/u'',
              module_file = ''/opt/tk/python/tank/descriptor/descriptor.py''\<rparr>"
  have pre: "io_get_manifest example_backend (io_descriptor ?d) = Inr Map.empty"
    by (simp add: example_backend_def)
  have bundle_icon: "os_path_join (get_path example_backend ?d) [''icon_256.png'']
              = ''/home/u/.shotgun/bundle_cache/app_store/tk-app/v1.0.0/icon_256.png''"
    by (simp add: get_path_def example_backend_def os_path_join_def join_step_def
                  startswith_def endswith_def)
  have default_icon:
    "os_path_abspath ''/home/u''
       (os_path_join (os_path_dirname ''/opt/tk/python/tank/descriptor/descriptor.py'')
          [''resources'', ''default_bundle_256px.png''])
     = ''/opt/tk/python/tank/descriptor/resources/default_bundle_256px.png''"
    by code_simp
  from no_manifest_defaults [OF pre, of ?os] bundle_icon default_icon
  have a: "description example_backend ?d = Inr (PyStr ''No description available.'')
           \<and> icon_256 example_backend ?os ?d
               = ''/opt/tk/python/tank/descriptor/resources/default_bundle_256px.png''"
    by (simp add: os_path_exists_def)
  from no_manifest_defaults [OF pre, of ?os'] bundle_icon
  have b: "icon_256 example_backend ?os' ?d
             = ''/home/u/.shotgun/bundle_cache/app_store/tk-app/v1.0.0/icon_256.png''"
    by (simp add: os_path_exists_def)
  from pre a b show ?thesis by simp
qed

text \<open>
  Claim C7. When \<^verbatim>\<open>get_manifest\<close> of the bound IO descriptor returns a mapping, possibly
  empty, the accessors \<^verbatim>\<open>display_name\<close>, \<^verbatim>\<open>description\<close>, \<^verbatim>\<open>support_url\<close> and
  \<^verbatim>\<open>documentation_url\<close> return a value and do not raise: a key that is missing, or bound
  to \<^verbatim>\<open>None\<close>, gives the system name, the two fixed default strings and \<^verbatim>\<open>None\<close>
  respectively. \<^verbatim>\<open>changelog\<close> and \<^verbatim>\<open>deprecation_status\<close> return what the IO descriptor's
  lookups return.
\<close>

theorem metadata_accessors_total:
  assumes "io_get_manifest B (io_descriptor d) = Inr meta"
  shows "\<not> isl (display_name B d) \<and> \<not> isl (description B d)
       \<and> \<not> isl (support_url B d) \<and> \<not> isl (documentation_url B d)
       \<and> display_name B d
           = Inr (if dict_get meta ''display_name'' = PyNone then PyStr (system_name B d)
                  else dict_get meta ''display_name'')
       \<and> description B d
           = Inr (if dict_get meta ''description'' = PyNone
                  then PyStr ''No description available.''
                  else dict_get meta ''description'')
       \<and> support_url B d
           = Inr (if dict_get meta ''support_url'' = PyNone
                  then PyStr ''https://support.shotgunsoftware.com''
                  else dict_get meta ''support_url'')
       \<and> documentation_url B d = Inr (dict_get meta ''documentation_url'')
       \<and> (meta ''display_name'' = None
            \<longrightarrow> display_name B d = Inr (PyStr (io_get_system_name B (io_descriptor d))))
       \<and> (meta ''description'' = None
            \<longrightarrow> description B d = Inr (PyStr ''No description available.''))
       \<and> (meta ''support_url'' = None
            \<longrightarrow> support_url B d = Inr (PyStr ''https://support.shotgunsoftware.com''))
       \<and> (meta ''documentation_url'' = None \<longrightarrow> documentation_url B d = Inr PyNone)
       \<and> changelog B d = io_get_changelog B (io_descriptor d)
       \<and> deprecation_status B d = io_get_deprecation_status B (io_descriptor d)"
proof -
  have dn: "display_name B d
              = Inr (if dict_get meta ''display_name'' = PyNone then PyStr (system_name B d)
                     else dict_get meta ''display_name'')"
    using assms by (simp add: display_name_def Let_def)
  have ds: "description B d
              = Inr (if dict_get meta ''description'' = PyNone
                     then PyStr ''No description available.''
                     else dict_get meta ''description'')"
    using assms by (simp add: description_def Let_def)
  have su: "support_url B d
              = Inr (if dict_get meta ''support_url'' = PyNone
                     then PyStr ''https://support.shotgunsoftware.com''
                     else dict_get meta ''support_url'')"
    using assms by (simp add: support_url_def Let_def)
  have du: "documentation_url B d = Inr (dict_get meta ''documentation_url'')"
    using assms by (simp add: documentation_url_def)
  have missing: "meta key = None \<Longrightarrow> dict_get meta key = PyNone" for key
    by (simp add: dict_get_def)
  show ?thesis
    by (simp add: dn ds su du missing system_name_def changelog_def deprecation_status_def)
qed

text \<open>
  IO descriptor 1 names itself \<^verbatim>\<open>My App\<close> and binds \<^verbatim>\<open>description\<close> to \<^verbatim>\<open>None\<close>; the
  other keys are missing.
\<close>

theorem metadata_accessors_total_witness:
  "io_get_manifest example_backend (io_descriptor \<lparr>cls = AppDescriptor, io_descriptor = 1\<rparr>)
     = Inr [''display_name'' \<mapsto> PyStr ''My App'', ''description'' \<mapsto> PyNone]
   \<and> display_name example_backend \<lparr>cls = AppDescriptor, io_descriptor = 1\<rparr>
       = Inr (PyStr ''My App'')
   \<and> description example_backend \<lparr>cls = AppDescriptor, io_descriptor = 1\<rparr>
       = Inr (PyStr ''No description available.'')
   \<and> support_url example_backend \<lparr>cls = AppDescriptor, io_descriptor = 1\<rparr>
       = Inr (PyStr ''https://support.shotgunsoftware.com'')
   \<and> documentation_url example_backend \<lparr>cls = AppDescriptor, io_descriptor = 1\<rparr> = Inr PyNone
   \<and> changelog example_backend \<lparr>cls = AppDescriptor, io_descriptor = 1\<rparr> = (None, None)
   \<and> deprecation_status example_backend \<lparr>cls = AppDescriptor, io_descriptor = 1\<rparr>
       = (False, None)"
proof -
  let ?d = "\<lparr>cls = AppDescriptor, io_descriptor = 1\<rparr>"
  let ?meta = "[''display_name'' \<mapsto> PyStr ''My App'', ''description'' \<mapsto> PyNone]"
  have pre: "io_get_manifest example_backend (io_descriptor ?d) = Inr ?meta"
    by (simp add: example_backend_def)
  have keys: "dict_get ?meta ''display_name'' = PyStr ''My App''"
    "dict_get ?meta ''description'' = PyNone"
    "dict_get ?meta ''support_url'' = PyNone"
    "dict_get ?meta ''documentation_url'' = PyNone"
    by (simp_all add: dict_get_def)
  have io: "io_get_changelog example_backend 1 = (None, None)"
    "io_get_deprecation_status example_backend 1 = (False, None)"
    by (simp_all add: example_backend_def)
  from metadata_accessors_total [OF pre] keys io pre
  show ?thesis by simp
qed

end
